theory Spec2Isabelle
  imports Complex_Main "HOL-Library.Word" "HOL-Library.Sublist"
begin

unbundle bit_operations_syntax

section \<open>Text helpers used by the query composer\<close>

text \<open>
  \<^verbatim>\<open>std::format("{}", n)\<close> for an integer: the decimal digits, with a leading minus sign
  for a negative number.
\<close>

fun digits :: "nat \<Rightarrow> string" where
  "digits n =
     (if n < 10 then [''0123456789'' ! n]
      else digits (n div 10) @ [''0123456789'' ! (n mod 10)])"

declare digits.simps [simp del]

definition format_int :: "int \<Rightarrow> string" where
  "format_int i = (if i < 0 then CHR ''-'' # digits (nat (- i)) else digits (nat i))"

text \<open>
  \<^verbatim>\<open>std::atoi\<close>: skips leading white space, reads an optional sign and then decimal digits
  up to the first character that is not a digit; no digit gives 0. The C library leaves
  the result undefined when the number does not fit an \<^verbatim>\<open>int\<close>; the model returns the
  mathematical value.
\<close>

definition isspace :: "char \<Rightarrow> bool" where
  "isspace c = (of_char c \<in> {32, 9, 10, 11, 12, 13 :: nat})"

definition isdigit :: "char \<Rightarrow> bool" where
  "isdigit c = (48 \<le> (of_char c :: nat) \<and> (of_char c :: nat) \<le> 57)"

fun atoi_digits :: "int \<Rightarrow> string \<Rightarrow> int" where
  "atoi_digits acc [] = acc"
| "atoi_digits acc (c # cs) =
     (if isdigit c then atoi_digits (10 * acc + (int (of_char c) - 48)) cs else acc)"

definition atoi :: "string \<Rightarrow> int" where
  "atoi s =
     (case dropWhile isspace s of
        [] \<Rightarrow> 0
      | c # cs \<Rightarrow>
          if c = CHR ''-'' then - atoi_digits 0 cs
          else if c = CHR ''+'' then atoi_digits 0 cs
          else atoi_digits 0 (c # cs))"

section \<open>Data model\<close>

text \<open>
  \<^verbatim>\<open>BoundingBox\<close> is a four-element array of doubles declared in GeoUtils.h; the composer reads
  it by index only. The fields are named by index. Coordinates and kilometre
  dimensions are modelled by the real numbers that finite doubles denote.
\<close>

record BoundingBox =
  bb0 :: real
  bb1 :: real
  bb2 :: real
  bb3 :: real

text \<open>
  \<^verbatim>\<open>ISearchEngine::RegionPreferences\<close> (SearchEngineItf.h): the feature bit mask and the
  string properties.
\<close>

record RegionPreferences =
  objects :: "32 word"
  properties :: "string \<rightharpoonup> string"

text \<open>
  \<^verbatim>\<open>nominatim::RelationInfo\<close> (NominatimApiUtils.h), with the fields the search engine reads.
  An \<^verbatim>\<open>OsmId\<close> is a 64-bit integer that the code only compares, sorts and copies; ids are
  modelled as integers.
\<close>

record RelationInfo =
  osm_id :: int
  name :: string
  country :: string
  latitude :: real
  longitude :: real

text \<open>\<^verbatim>\<open>GeoProtoPlace\<close>: name, country and the centre point set by \<^verbatim>\<open>toGeoProtoPlace\<close>.\<close>

record GeoProtoPlace =
  place_name :: string
  place_country :: string
  center_latitude :: real
  center_longitude :: real

text \<open>A rapidjson value.\<close>

datatype json =
    JNull
  | JBool bool
  | JInt int
  | JDouble real
  | JString string
  | JArray "json list"
  | JObject "(string \<times> json) list"

text \<open>
  rapidjson checks its preconditions with \<^verbatim>\<open>RAPIDJSON_ASSERT\<close>: looking up a member that an
  object does not have, and reading a value as an array or a string when it is not one,
  fail that assertion.
\<close>

datatype error = AssertionFailed

text \<open>One call on a collaborator, as recorded in the order the code makes it.\<close>

datatype call = PostCall string | LookupCall "int list"

text \<open>
  Everything the translation unit uses and does not define: the protobuf enumerators of
  the four feature categories, \<^verbatim>\<open>std::format\<close>'s rendering of a double,
  \<^verbatim>\<open>GetBoundingBoxDimensionsKm\<close> (GeoUtils.h), the web client's \<^verbatim>\<open>Post\<close>,
  \<^verbatim>\<open>nominatim::LookupRelationInformation\<close>, rapidjson's parser (\<open>None\<close> is a parse error)
  and the accessors of JsonUtils.h. They are parameters of the model.
\<close>

record env =
  flagAirports :: "32 word"
  flagPeaks :: "32 word"
  flagSeaBeaches :: "32 word"
  flagSaltLakes :: "32 word"
  formatDouble :: "real \<Rightarrow> string"
  GetBoundingBoxDimensionsKm :: "BoundingBox \<Rightarrow> real \<times> real"
  Post :: "string \<Rightarrow> string"
  LookupRelationInformation :: "int list \<Rightarrow> RelationInfo list"
  Parse :: "string \<Rightarrow> json option"
  json_Get :: "json \<Rightarrow> string \<Rightarrow> json"
  json_GetString :: "json \<Rightarrow> string"
  json_GetInt64 :: "json \<Rightarrow> int"
  json_GetDouble :: "json \<Rightarrow> real"

section \<open>SearchEngine.cc: the region query composer\<close>

definition sz_requestHeader :: string where
  "sz_requestHeader = ''[out:json][timeout:180];''"

definition sz_requestFooter :: string where
  "sz_requestFooter = '';out tags;''"

text \<open>\<^verbatim>\<open>std::format(sz_requestRelationsByNodes, a0, a1, a2, a3, a4)\<close>.\<close>

definition requestRelationsByNodes ::
  "string \<Rightarrow> string \<Rightarrow> string \<Rightarrow> string \<Rightarrow> string \<Rightarrow> string" where
  "requestRelationsByNodes a0 a1 a2 a3 a4 =
     a0 @ '' -> '' @ a1 @ '';''
     @ a1 @ '' is_in -> '' @ a2 @ '';''
     @ ''rel(pivot'' @ a2 @ '')'' @ a3 @ '' -> '' @ a4 @ '';''"

text \<open>\<^verbatim>\<open>std::format(sz_nodeAirportsDef, bb)\<close>.\<close>

definition nodeAirportsDef :: "string \<Rightarrow> string" where
  \<open>nodeAirportsDef bb =
     ''(''
     @ ''nwr["aeroway"="aerodrome"]["aerodrome:type"="international"]('' @ bb @ '');''
     @ ''nwr["aerodrome"="international"]('' @ bb @ '');''
     @ '') -> .outA;''
     @ ''.outA > -> .outA;''
     @ ''node.outA''\<close>

text \<open>\<^verbatim>\<open>std::format(sz_nodePeaksDef, bb, heightMeters)\<close>.\<close>

definition nodePeaksDef :: "string \<Rightarrow> int \<Rightarrow> string" where
  \<open>nodePeaksDef bb heightMeters =
     ''node[natural=peak][name]('' @ bb
     @ '')(if: is_number(t["ele"]) && number(t["ele"]) > '' @ format_int heightMeters @ '')''\<close>

text \<open>\<^verbatim>\<open>std::format(sz_nodeSeaBeachesDef, bb)\<close>.\<close>

definition nodeSeaBeachesDef :: "string \<Rightarrow> string" where
  "nodeSeaBeachesDef bb =
     ''way[natural=coastline]('' @ bb @ '') -> .coastlines;''
     @ ''node(around.coastlines:100)[natural=beach]''"

text \<open>\<^verbatim>\<open>std::format(sz_nodeSaltLakesDef, bb)\<close>.\<close>

definition nodeSaltLakesDef :: "string \<Rightarrow> string" where
  "nodeSaltLakesDef bb =
     ''wr[natural=water][water=lake][salt=no][name]('' @ bb @ '') -> .outL;''
     @ ''.outL > -> .outL;''
     @ ''node.outL('' @ bb @ '')''"

definition sz_regionsTags :: string where
  "sz_regionsTags = ''[boundary=administrative][admin_level=4]''"

definition sz_relAirports :: string where "sz_relAirports = ''.relA''"
definition sz_relPeaks :: string where "sz_relPeaks = ''.relP''"
definition sz_relSeaBeaches :: string where "sz_relSeaBeaches = ''.relS''"
definition sz_relSaltLakes :: string where "sz_relSaltLakes = ''.relL''"

text \<open>The test \<^verbatim>\<open>prefs.objects & FLAG\<close> of a feature category.\<close>

definition enabled :: "RegionPreferences \<Rightarrow> 32 word \<Rightarrow> bool" where
  "enabled prefs flag = (objects prefs AND flag \<noteq> 0)"

definition boundingBoxStr :: "env \<Rightarrow> BoundingBox \<Rightarrow> string" where
  "boundingBoxStr env boundingBox =
     formatDouble env (bb0 boundingBox) @ '', '' @ formatDouble env (bb2 boundingBox) @ '', ''
     @ formatDouble env (bb1 boundingBox) @ '', '' @ formatDouble env (bb3 boundingBox)"

definition formatRegionsRequest :: "env \<Rightarrow> RegionPreferences \<Rightarrow> BoundingBox \<Rightarrow> string" where
  "formatRegionsRequest env prefs boundingBox =
     (let bbs = boundingBoxStr env boundingBox;
          request = sz_requestHeader;
          request =
            (if enabled prefs (flagAirports env)
             then request @ requestRelationsByNodes (nodeAirportsDef bbs)
                    ''.nodesA'' ''.areasA'' sz_regionsTags sz_relAirports
             else request);
          request =
            (if enabled prefs (flagPeaks env)
             then (case properties prefs ''minPeakHeight'' of
                     None \<Rightarrow> request
                   | Some v \<Rightarrow>
                       request @ requestRelationsByNodes (nodePeaksDef bbs (atoi v))
                         ''.nodesP'' ''.areasP'' sz_regionsTags sz_relPeaks)
             else request);
          request =
            (if enabled prefs (flagSeaBeaches env)
             then request @ requestRelationsByNodes (nodeSeaBeachesDef bbs)
                    ''.nodesS'' ''.areasS'' sz_regionsTags sz_relSeaBeaches
             else request);
          request =
            (if enabled prefs (flagSaltLakes env)
             then request @ requestRelationsByNodes (nodeSaltLakesDef bbs)
                    ''.nodesL'' ''.areasL'' sz_regionsTags sz_relSeaBeaches
             else request)
      in if request = sz_requestHeader then []
         else
           (let request = request @ ''rel'';
                request = (if enabled prefs (flagAirports env) then request @ sz_relAirports else request);
                request = (if enabled prefs (flagPeaks env) then request @ sz_relPeaks else request);
                request = (if enabled prefs (flagSeaBeaches env) then request @ sz_relSeaBeaches else request);
                request = (if enabled prefs (flagSaltLakes env) then request @ sz_relSaltLakes else request)
            in request @ sz_requestFooter))"

definition sc_maxDimensionKm :: int where
  "sc_maxDimensionKm = 1000"

definition isValidBoundingBox :: "env \<Rightarrow> BoundingBox \<Rightarrow> bool" where
  "isValidBoundingBox env bbox =
     (case GetBoundingBoxDimensionsKm env bbox of
        (widthKm, heightKm) \<Rightarrow>
          widthKm < real_of_int (sc_maxDimensionKm * 2 + 1)
          \<and> heightKm < real_of_int (sc_maxDimensionKm * 2 + 1))"

section \<open>OverpassApiUtils.cc: reading the query result\<close>

fun IsObject :: "json \<Rightarrow> bool" where
  "IsObject (JObject ms) = True"
| "IsObject _ = False"

text \<open>rapidjson's \<^verbatim>\<open>value["name"]\<close>: the first member of that name, and an assertion otherwise.\<close>

fun member_at :: "json \<Rightarrow> string \<Rightarrow> error + json" where
  "member_at (JObject ms) k = (case map_of ms k of None \<Rightarrow> Inl AssertionFailed | Some v \<Rightarrow> Inr v)"
| "member_at _ k = Inl AssertionFailed"

fun GetArray :: "json \<Rightarrow> error + json list" where
  "GetArray (JArray es) = Inr es"
| "GetArray _ = Inl AssertionFailed"

fun GetString :: "json \<Rightarrow> error + string" where
  "GetString (JString s) = Inr s"
| "GetString _ = Inl AssertionFailed"

text \<open>The document a \<^verbatim>\<open>rapidjson::Document\<close> holds after \<^verbatim>\<open>Parse\<close>: null after a parse error.\<close>

definition parsed :: "env \<Rightarrow> string \<Rightarrow> json" where
  "parsed env text = (case Parse env text of None \<Rightarrow> JNull | Some d \<Rightarrow> d)"

text \<open>The loop of \<^verbatim>\<open>ExtractRelationIds\<close> over the elements, \<open>result\<close> being the vector built so far.\<close>

fun relation_ids_loop :: "env \<Rightarrow> json list \<Rightarrow> int list \<Rightarrow> int list" where
  "relation_ids_loop env [] result = result"
| "relation_ids_loop env (e # es) result =
     (let id = json_Get env e ''id'' in
      if id \<noteq> JNull \<and> json_GetString env (json_Get env e ''type'') = ''relation''
      then relation_ids_loop env es (result @ [json_GetInt64 env id])
      else relation_ids_loop env es result)"

definition ExtractRelationIds :: "env \<Rightarrow> string \<Rightarrow> error + int list" where
  "ExtractRelationIds env json =
     (if json = [] then Inr []
      else
        (let document = parsed env json in
         if \<not> IsObject document then Inr []
         else
           (case member_at document ''elements'' of
              Inl err \<Rightarrow> Inl err
            | Inr els \<Rightarrow>
                (case GetArray els of
                   Inl err \<Rightarrow> Inl err
                 | Inr es \<Rightarrow> Inr (relation_ids_loop env es [])))))"

text \<open>\<^verbatim>\<open>overpass::OsmNode\<close>.\<close>

record OsmNode =
  lat :: real
  lon :: real
  tags :: "string \<rightharpoonup> string"

text \<open>
  The inner loop of \<^verbatim>\<open>ExtractNodes\<close> over the members of the tags object:
  \<^verbatim>\<open>it->value.GetString()\<close> is rapidjson's accessor, which asserts that the value is a string.
\<close>

fun tags_loop :: "(string \<times> json) list \<Rightarrow> (string \<rightharpoonup> string) \<Rightarrow> error + (string \<rightharpoonup> string)" where
  "tags_loop [] tgs = Inr tgs"
| "tags_loop ((k, v) # ms) tgs =
     (case GetString v of
        Inl err \<Rightarrow> Inl err
      | Inr s \<Rightarrow> tags_loop ms (tgs(k \<mapsto> s)))"

fun nodes_loop :: "env \<Rightarrow> json list \<Rightarrow> OsmNode list \<Rightarrow> error + OsmNode list" where
  "nodes_loop env [] nodes = Inr nodes"
| "nodes_loop env (e # es) nodes =
     (if json_GetString env (json_Get env e ''type'') \<noteq> ''node'' then nodes_loop env es nodes
      else
        (let node = \<lparr>lat = json_GetDouble env (json_Get env e ''lat''),
                     lon = json_GetDouble env (json_Get env e ''lon''),
                     tags = Map.empty\<rparr>;
             tagsObj = json_Get env e ''tags''
         in case tagsObj of
              JObject ms \<Rightarrow>
                (case tags_loop ms (tags node) of
                   Inl err \<Rightarrow> Inl err
                 | Inr tgs \<Rightarrow> nodes_loop env es (nodes @ [node\<lparr>tags := tgs\<rparr>]))
            | _ \<Rightarrow> nodes_loop env es (nodes @ [node])))"

definition ExtractNodes :: "env \<Rightarrow> string \<Rightarrow> error + OsmNode list" where
  "ExtractNodes env json =
     (if json = [] then Inr []
      else
        (let document = parsed env json in
         if \<not> IsObject document then Inr []
         else
           (case member_at document ''elements'' of
              Inl err \<Rightarrow> Inl err
            | Inr els \<Rightarrow>
                (case GetArray els of
                   Inl err \<Rightarrow> Inl err
                 | Inr es \<Rightarrow> nodes_loop env es []))))"

section \<open>SearchEngine.cc: the incremental region search\<close>

definition toGeoProtoPlace :: "RelationInfo \<Rightarrow> GeoProtoPlace" where
  "toGeoProtoPlace info =
     \<lparr>place_name = name info, place_country = country info,
      center_latitude = latitude info, center_longitude = longitude info\<rparr>"

text \<open>\<^verbatim>\<open>std::set_difference\<close> of two sorted ranges.\<close>

fun set_difference :: "int list \<Rightarrow> int list \<Rightarrow> int list" where
  "set_difference [] ys = []"
| "set_difference (x # xs) [] = x # xs"
| "set_difference (x # xs) (y # ys) =
     (if x < y then x # set_difference xs (y # ys)
      else if y < x then set_difference (x # xs) ys
      else set_difference xs ys)"

text \<open>
  \<^verbatim>\<open>SearchEngine::findRegions\<close>. The \<^verbatim>\<open>std::set\<close> of processed ids is a set, read in
  increasing order by \<^verbatim>\<open>std::set_difference\<close>. The function returns what the caller gets
  (the records, or the failed assertion that ends the program), the set as the call
  leaves it, and the calls made on the collaborators, in order. Log lines are not modelled.
\<close>

definition findRegions ::
  "env \<Rightarrow> BoundingBox \<Rightarrow> RegionPreferences \<Rightarrow> int set
     \<Rightarrow> (error + RelationInfo list) \<times> int set \<times> call list" where
  "findRegions env bbox prefs processed =
     (if \<not> isValidBoundingBox env bbox then (Inr [], processed, [])
      else
        (let request = formatRegionsRequest env prefs bbox in
         if request = [] then (Inr [], processed, [])
         else
           (let response = Post env request in
            case ExtractRelationIds env response of
              Inl err \<Rightarrow> (Inl err, processed, [PostCall request])
            | Inr relationIds \<Rightarrow>
                if length relationIds \<noteq> 0 then (Inr [], processed, [PostCall request])
                else
                  (let relationIds = sort relationIds;
                       relationIdsToProcess =
                         set_difference relationIds (sorted_list_of_set processed)
                   in if relationIdsToProcess \<noteq> [] then (Inr [], processed, [PostCall request])
                      else
                        (let infos = LookupRelationInformation env relationIdsToProcess in
                         if infos = []
                         then (Inr [], processed, [PostCall request, LookupCall relationIdsToProcess])
                         else (Inr infos, processed \<union> set relationIdsToProcess,
                               [PostCall request, LookupCall relationIdsToProcess]))))))"

text \<open>
  \<^verbatim>\<open>SearchEngine::StartFindRegions\<close>: the handler owns a set that starts empty; one
  invocation of the handler is \<open>step\<close>, which threads the set.
\<close>

definition StartFindRegions :: "int set" where
  "StartFindRegions = {}"

definition step ::
  "env \<Rightarrow> int set \<Rightarrow> BoundingBox \<Rightarrow> RegionPreferences
     \<Rightarrow> (error + GeoProtoPlace list) \<times> int set \<times> call list" where
  "step env processed bbox prefs =
     (case findRegions env bbox prefs processed of
        (iterationResult, processed', calls) \<Rightarrow>
          (map_sum id (map toGeoProtoPlace) iterationResult, processed', calls))"

text \<open>A sequence of invocations of one handler: the outputs in order, and the final set.\<close>

fun steps ::
  "env \<Rightarrow> int set \<Rightarrow> (BoundingBox \<times> RegionPreferences) list
     \<Rightarrow> (error + GeoProtoPlace list) list \<times> int set" where
  "steps env processed [] = ([], processed)"
| "steps env processed ((bbox, prefs) # rest) =
     (case step env processed bbox prefs of
        (out, processed', calls) \<Rightarrow>
          (case steps env processed' rest of
             (outs, final) \<Rightarrow> (out # outs, final)))"

section \<open>OpenMeteoApiUtils.cc: the historical date windows\<close>

text \<open>
  \<^verbatim>\<open>Date\<close> is \<^verbatim>\<open>std::chrono::year_month_day\<close>: three fields, which need not form a date of the
  calendar (February 29 of a common year is a value of the type). Years are integers;
  \<^verbatim>\<open>std::chrono::year\<close> represents the years from -32767 to 32767 only, which
  \<open>year_ok\<close> states.
\<close>

record Date =
  year :: int
  month :: nat
  day :: nat

definition year_ok :: "int \<Rightarrow> bool" where
  "year_ok y = (- 32767 \<le> y \<and> y \<le> 32767)"

text \<open>The comparison of \<^verbatim>\<open>year_month_day\<close>: by year, then month, then day.\<close>

definition date_le :: "Date \<Rightarrow> Date \<Rightarrow> bool" where
  "date_le a b =
     (year a < year b
      \<or> (year a = year b \<and> (month a < month b \<or> (month a = month b \<and> day a \<le> day b))))"

definition date_less :: "Date \<Rightarrow> Date \<Rightarrow> bool" where
  "date_less a b =
     (year a < year b
      \<or> (year a = year b \<and> (month a < month b \<or> (month a = month b \<and> day a < day b))))"

text \<open>\<^verbatim>\<open>date -= std::chrono::years{1}\<close>: the year field goes down by one, month and day stay.\<close>

definition minus_year :: "Date \<Rightarrow> Date" where
  "minus_year d = d\<lparr>year := year d - 1\<rparr>"

text \<open>
  The conversions between \<^verbatim>\<open>year_month_day\<close> and \<^verbatim>\<open>sys_days\<close> (days since 1970-01-01 in the
  proleptic Gregorian calendar), by the algorithms of the chrono calendar proposal. The
  day number is linear in the day field, which is what the standard prescribes for a
  value with a day outside its month: the first of the month plus the day field minus one.
\<close>

definition days_from_civil :: "int \<Rightarrow> nat \<Rightarrow> nat \<Rightarrow> int" where
  "days_from_civil y m d =
     (let y1 = (if m \<le> 2 then y - 1 else y);
          era = y1 div 400;
          yoe = y1 - era * 400;
          mp = (if 2 < m then int m - 3 else int m + 9);
          doy = (153 * mp + 2) div 5 + int d - 1;
          doe = yoe * 365 + yoe div 4 - yoe div 100 + doy
      in era * 146097 + doe - 719468)"

definition civil_from_days :: "int \<Rightarrow> Date" where
  "civil_from_days z =
     (let z1 = z + 719468;
          era = z1 div 146097;
          doe = z1 - era * 146097;
          yoe = (doe - doe div 1460 + doe div 36524 - doe div 146096) div 365;
          y = yoe + era * 400;
          doy = doe - (365 * yoe + yoe div 4 - yoe div 100);
          mp = (5 * doy + 2) div 153;
          d = doy - (153 * mp + 2) div 5 + 1;
          m = (if mp < 10 then mp + 3 else mp - 9)
      in \<lparr>year = (if m \<le> 2 then y + 1 else y), month = nat m, day = nat d\<rparr>)"

definition to_sys_days :: "Date \<Rightarrow> int" where
  "to_sys_days dt = days_from_civil (year dt) (month dt) (day dt)"

text \<open>The loop \<^verbatim>\<open>while (latestDate <= endDate)\<close> that moves both ends back one year at a time.\<close>

function roll_back :: "Date \<Rightarrow> Date \<times> Date \<Rightarrow> Date \<times> Date" where
  "roll_back latestDate (startDate, endDate) =
     (if date_le latestDate endDate
      then roll_back latestDate (minus_year startDate, minus_year endDate)
      else (startDate, endDate))"
  by pat_completeness auto
termination
  by (relation "measure (\<lambda>(l, s, e). nat (year e - year l + 1))")
    (auto simp: date_le_def minus_year_def)

declare roll_back.simps [simp del]

text \<open>The collecting loop, run \<open>n\<close> times from the window \<open>(startDate, endDate)\<close>.\<close>

fun collect :: "nat \<Rightarrow> Date \<times> Date \<Rightarrow> (Date \<times> Date) list" where
  "collect 0 w = []"
| "collect (Suc n) (startDate, endDate) =
     (startDate, endDate) # collect n (minus_year startDate, minus_year endDate)"

text \<open>
  The window before the two loops: the start re-anchored in the year of \<open>latestDate\<close>, and
  the end \<open>numDays\<close> later.
\<close>

definition candidate :: "Date \<times> Date \<Rightarrow> Date \<Rightarrow> Date \<times> Date" where
  "candidate dateRange latestDate =
     (case dateRange of
        (startDate, endDate) \<Rightarrow>
          (let numDays = to_sys_days endDate - to_sys_days startDate;
               startDate = \<lparr>year = year latestDate, month = month startDate, day = day startDate\<rparr>;
               endDate = civil_from_days (to_sys_days startDate + numDays)
           in (startDate, endDate)))"

text \<open>
  \<^verbatim>\<open>CollectHistoricalRanges\<close>, from the date of \<^verbatim>\<open>latestTime\<close> (\<^verbatim>\<open>TimePointToDate\<close> is not part
  of the translation unit).
\<close>

definition CollectHistoricalRanges :: "Date \<times> Date \<Rightarrow> Date \<Rightarrow> 32 word \<Rightarrow> (Date \<times> Date) list" where
  "CollectHistoricalRanges dateRange latestDate numYears =
     collect (unat (max 1 numYears)) (roll_back latestDate (candidate dateRange latestDate))"

text \<open>
  The inputs on which \<^verbatim>\<open>std::chrono\<close> specifies every value the function computes: the two
  dates of the range have a month from 1 to 12 (the conversion to \<^verbatim>\<open>sys_days\<close> is specified
  for those only), and every year that is read or stored is one that
  \<^verbatim>\<open>std::chrono::year\<close> represents.
\<close>

definition month_ok :: "nat \<Rightarrow> bool" where
  "month_ok m = (1 \<le> m \<and> m \<le> 12)"

definition chrono_representable :: "Date \<times> Date \<Rightarrow> Date \<Rightarrow> 32 word \<Rightarrow> bool" where
  "chrono_representable dateRange latestDate numYears =
     (month_ok (month (fst dateRange)) \<and> month_ok (month (snd dateRange))
      \<and> year_ok (year (fst dateRange)) \<and> year_ok (year (snd dateRange))
      \<and> year_ok (year latestDate)
      \<and> year_ok (year (snd (candidate dateRange latestDate)))
      \<and> list_all (\<lambda>w. year_ok (year (fst w)) \<and> year_ok (year (snd w)))
            (CollectHistoricalRanges dateRange latestDate numYears))"

section \<open>Stand-ins for the collaborators and sample inputs\<close>

text \<open>
  Concrete collaborators for running the code on sample inputs: accessors that return
  null, the empty string or zero instead of failing, a parser given as a table of the
  sample response texts, a web client that answers every request with one fixed
  response, a bounding-box measure that returns fixed dimensions, and the feature
  enumerators as the bits 1, 2, 4 and 8. \<open>format_10_and_10_5\<close> renders the two coordinates
  of the sample boxes as \<^verbatim>\<open>std::format\<close> does.
\<close>

definition safe_Get :: "json \<Rightarrow> string \<Rightarrow> json" where
  "safe_Get v k = (case v of JObject ms \<Rightarrow> (case map_of ms k of None \<Rightarrow> JNull | Some x \<Rightarrow> x) | _ \<Rightarrow> JNull)"

definition safe_GetString :: "json \<Rightarrow> string" where
  "safe_GetString v = (case v of JString s \<Rightarrow> s | _ \<Rightarrow> [])"

definition safe_GetInt64 :: "json \<Rightarrow> int" where
  "safe_GetInt64 v = (case v of JInt i \<Rightarrow> i | _ \<Rightarrow> 0)"

definition safe_GetDouble :: "json \<Rightarrow> real" where
  "safe_GetDouble v = (case v of JDouble x \<Rightarrow> x | JInt i \<Rightarrow> real_of_int i | _ \<Rightarrow> 0)"

definition response_relation_42 :: string where
  \<open>response_relation_42 = ''{"elements":[{"type":"relation","id":42}]}''\<close>

definition response_null_id :: string where
  \<open>response_null_id = ''{"elements":[{"type":"relation","id":null}]}''\<close>

definition response_no_relations :: string where
  \<open>response_no_relations = ''{"elements":[{"type":"node","id":7}]}''\<close>

definition response_mixed :: string where
  \<open>response_mixed =
     ''{"elements":[{"type":"node","id":7},{"type":"relation","id":42},{"type":"way","id":8},{"type":"relation","id":43}]}''\<close>

definition response_no_elements :: string where
  "response_no_elements = ''{}''"

definition documents :: "(string \<times> json) list" where
  "documents =
     [(response_relation_42,
         JObject [(''elements'', JArray [JObject [(''type'', JString ''relation''), (''id'', JInt 42)]])]),
      (response_null_id,
         JObject [(''elements'', JArray [JObject [(''type'', JString ''relation''), (''id'', JNull)]])]),
      (response_no_relations,
         JObject [(''elements'', JArray [JObject [(''type'', JString ''node''), (''id'', JInt 7)]])]),
      (response_mixed,
         JObject [(''elements'', JArray
           [JObject [(''type'', JString ''node''), (''id'', JInt 7)],
            JObject [(''type'', JString ''relation''), (''id'', JInt 42)],
            JObject [(''type'', JString ''way''), (''id'', JInt 8)],
            JObject [(''type'', JString ''relation''), (''id'', JInt 43)]])]),
      (response_no_elements, JObject [])]"

definition format_10_and_10_5 :: "real \<Rightarrow> string" where
  "format_10_and_10_5 x = (if x = 10 then ''10'' else if x = 21 / 2 then ''10.5'' else ''0'')"

definition test_env :: "real \<times> real \<Rightarrow> string \<Rightarrow> (int list \<Rightarrow> RelationInfo list) \<Rightarrow> env" where
  "test_env dims response lookup =
     \<lparr>flagAirports = 1, flagPeaks = 2, flagSeaBeaches = 4, flagSaltLakes = 8,
      formatDouble = format_10_and_10_5,
      GetBoundingBoxDimensionsKm = (\<lambda>bbox. dims),
      Post = (\<lambda>request. response),
      LookupRelationInformation = lookup,
      Parse = map_of documents,
      json_Get = safe_Get,
      json_GetString = safe_GetString,
      json_GetInt64 = safe_GetInt64,
      json_GetDouble = safe_GetDouble\<rparr>"

definition region_42 :: RelationInfo where
  "region_42 = \<lparr>osm_id = 42, name = ''Tirol'', country = ''Austria'', latitude = 47, longitude = 11\<rparr>"

definition resolve_42 :: "int list \<Rightarrow> RelationInfo list" where
  "resolve_42 ids = (if 42 \<in> set ids then [region_42] else [])"

definition resolve_none :: "int list \<Rightarrow> RelationInfo list" where
  "resolve_none ids = []"

definition scenario_box :: BoundingBox where
  "scenario_box = \<lparr>bb0 = 10, bb1 = 10, bb2 = 21 / 2, bb3 = 21 / 2\<rparr>"

definition other_box :: BoundingBox where
  "other_box = \<lparr>bb0 = 10, bb1 = 21 / 2, bb2 = 10, bb3 = 21 / 2\<rparr>"

definition only_airports :: RegionPreferences where
  "only_airports = \<lparr>objects = 1, properties = Map.empty\<rparr>"

definition only_salt_lakes :: RegionPreferences where
  "only_salt_lakes = \<lparr>objects = 8, properties = Map.empty\<rparr>"

definition peaks_3000 :: RegionPreferences where
  "peaks_3000 = \<lparr>objects = 2, properties = [''minPeakHeight'' \<mapsto> ''3000'']\<rparr>"

definition peaks_without_height :: RegionPreferences where
  "peaks_without_height = \<lparr>objects = 2, properties = Map.empty\<rparr>"

definition airports_and_peaks_without_height :: RegionPreferences where
  "airports_and_peaks_without_height = \<lparr>objects = 3, properties = Map.empty\<rparr>"

text \<open>The date with the given year, month and day.\<close>

definition ymd :: "int \<Rightarrow> nat \<Rightarrow> nat \<Rightarrow> Date" where
  "ymd y m d = \<lparr>year = y, month = m, day = d\<rparr>"

section \<open>Evaluation on the sample inputs\<close>

lemmas sample_defs = test_env_def safe_Get_def safe_GetString_def safe_GetInt64_def
  response_relation_42_def response_null_id_def response_no_relations_def response_mixed_def
  response_no_elements_def documents_def format_10_and_10_5_def resolve_42_def resolve_none_def

lemmas composer_defs = formatRegionsRequest_def enabled_def boundingBoxStr_def
  sz_requestHeader_def sz_requestFooter_def requestRelationsByNodes_def nodePeaksDef_def
  nodeAirportsDef_def nodeSeaBeachesDef_def nodeSaltLakesDef_def sz_regionsTags_def
  sz_relPeaks_def sz_relAirports_def sz_relSeaBeaches_def sz_relSaltLakes_def

lemma request_nonempty_airports:
  "formatRegionsRequest (test_env dims response lookup) only_airports bbox \<noteq> []"
  by (simp add: composer_defs sample_defs only_airports_def)

lemma extract_42:
  "ExtractRelationIds (test_env dims response lookup) response_relation_42 = Inr [42]"
  by (simp add: ExtractRelationIds_def parsed_def sample_defs)

lemma valid_55: "isValidBoundingBox (test_env (55, 55) response lookup) bbox"
  by (simp add: isValidBoundingBox_def sc_maxDimensionKm_def sample_defs)

lemma post_test_env: "Post (test_env dims response lookup) request = response"
  by (simp add: test_env_def)

section \<open>Reading the query result\<close>

lemma relation_ids_loop_eq:
  "relation_ids_loop env es result
     = result @ map (\<lambda>e. json_GetInt64 env (json_Get env e ''id''))
         (filter (\<lambda>e. json_Get env e ''id'' \<noteq> JNull
                      \<and> json_GetString env (json_Get env e ''type'') = ''relation'') es)"
  by (induction es arbitrary: result) (simp_all add: Let_def)

lemma ExtractRelationIds_document:
  assumes "json \<noteq> []"
    and "Parse env json = Some (JObject ms)"
    and "map_of ms ''elements'' = Some (JArray es)"
  shows "ExtractRelationIds env json
     = Inr (map (\<lambda>e. json_GetInt64 env (json_Get env e ''id''))
         (filter (\<lambda>e. json_Get env e ''id'' \<noteq> JNull
                      \<and> json_GetString env (json_Get env e ''type'') = ''relation'') es))"
  using assms by (simp add: ExtractRelationIds_def parsed_def relation_ids_loop_eq)

text \<open>
  Claim C7, as amended. For a document that is an object with an array \<^verbatim>\<open>elements\<close>,
  \<^verbatim>\<open>ExtractRelationIds\<close> returns, in element order, the ids of the elements whose type is
  \<^verbatim>\<open>relation\<close> and whose id is not null: as many ids as there are such elements, and none
  when no element is typed \<^verbatim>\<open>relation\<close>. Type and id are read through the accessors of
  JsonUtils.h.
\<close>

theorem relation_ids_of_elements_with_an_id:
  assumes "json \<noteq> []"
    and "Parse env json = Some (JObject ms)"
    and "map_of ms ''elements'' = Some (JArray es)"
  shows "ExtractRelationIds env json
     = Inr (map (\<lambda>e. json_GetInt64 env (json_Get env e ''id''))
         (filter (\<lambda>e. json_Get env e ''id'' \<noteq> JNull
                      \<and> json_GetString env (json_Get env e ''type'') = ''relation'') es))
   \<and> (\<exists>ids. ExtractRelationIds env json = Inr ids
          \<and> length ids
             = length (filter (\<lambda>e. json_Get env e ''id'' \<noteq> JNull
                      \<and> json_GetString env (json_Get env e ''type'') = ''relation'') es))
   \<and> (list_all (\<lambda>e. json_GetString env (json_Get env e ''type'') \<noteq> ''relation'') es
        \<longrightarrow> ExtractRelationIds env json = Inr [])"
proof -
  have "list_all (\<lambda>e. json_GetString env (json_Get env e ''type'') \<noteq> ''relation'') es
    \<Longrightarrow> filter (\<lambda>e. json_Get env e ''id'' \<noteq> JNull
                      \<and> json_GetString env (json_Get env e ''type'') = ''relation'') es = []"
    by (induction es) simp_all
  then show ?thesis
    using ExtractRelationIds_document [OF assms] by auto
qed

theorem relation_ids_of_elements_with_an_id_witness:
  "ExtractRelationIds (test_env (55, 55) response_mixed resolve_none) response_mixed = Inr [42, 43]
   \<and> ExtractRelationIds (test_env (55, 55) response_mixed resolve_none) response_no_relations = Inr []"
proof -
  have m: "response_mixed \<noteq> []" "response_no_relations \<noteq> []"
    by (simp_all add: response_mixed_def response_no_relations_def)
  have p1: "Parse (test_env (55, 55) response_mixed resolve_none) response_mixed
     = Some (JObject [(''elements'', JArray
           [JObject [(''type'', JString ''node''), (''id'', JInt 7)],
            JObject [(''type'', JString ''relation''), (''id'', JInt 42)],
            JObject [(''type'', JString ''way''), (''id'', JInt 8)],
            JObject [(''type'', JString ''relation''), (''id'', JInt 43)]])])"
    by (simp add: sample_defs)
  have p2: "Parse (test_env (55, 55) response_mixed resolve_none) response_no_relations
     = Some (JObject [(''elements'', JArray [JObject [(''type'', JString ''node''), (''id'', JInt 7)]])])"
    by (simp add: sample_defs)
  show ?thesis
    using relation_ids_of_elements_with_an_id [OF m(1) p1]
      relation_ids_of_elements_with_an_id [OF m(2) p2]
    by (simp add: test_env_def safe_Get_def safe_GetString_def safe_GetInt64_def)
qed

text \<open>
  Claim C7 as stated fails for a relation whose id is null: the document has one element
  typed \<^verbatim>\<open>relation\<close> and the result has no id.
\<close>

theorem relation_without_id_is_skipped:
  "Parse (test_env (55, 55) response_null_id resolve_none) response_null_id
     = Some (JObject [(''elements'',
               JArray [JObject [(''type'', JString ''relation''), (''id'', JNull)]])])
   \<and> length (filter (\<lambda>e. json_GetString (test_env (55, 55) response_null_id resolve_none)
                            (json_Get (test_env (55, 55) response_null_id resolve_none) e ''type'')
                          = ''relation'')
               [JObject [(''type'', JString ''relation''), (''id'', JNull)]]) = 1
   \<and> ExtractRelationIds (test_env (55, 55) response_null_id resolve_none) response_null_id = Inr []"
  by (simp add: ExtractRelationIds_def parsed_def sample_defs)

text \<open>
  The three inputs that both extractors answer with an empty result: the empty string, a
  text the parser rejects, and a document that is not an object.
\<close>

lemma ExtractRelationIds_empty: "ExtractRelationIds env [] = Inr []"
  by (simp add: ExtractRelationIds_def)

lemma ExtractRelationIds_parse_error: "Parse env json = None \<Longrightarrow> ExtractRelationIds env json = Inr []"
  by (simp add: ExtractRelationIds_def parsed_def)

lemma ExtractRelationIds_not_object:
  "Parse env json = Some d \<Longrightarrow> \<not> IsObject d \<Longrightarrow> ExtractRelationIds env json = Inr []"
  by (simp add: ExtractRelationIds_def parsed_def)

lemma ExtractNodes_empty: "ExtractNodes env [] = Inr []"
  by (simp add: ExtractNodes_def)

lemma ExtractNodes_parse_error: "Parse env json = None \<Longrightarrow> ExtractNodes env json = Inr []"
  by (simp add: ExtractNodes_def parsed_def)

lemma ExtractNodes_not_object:
  "Parse env json = Some d \<Longrightarrow> \<not> IsObject d \<Longrightarrow> ExtractNodes env json = Inr []"
  by (simp add: ExtractNodes_def parsed_def)

text \<open>
  Claim C8, evaluated where it fails. The text \<^verbatim>\<open>{}\<close> is a well-formed document, an object
  without the member \<^verbatim>\<open>elements\<close>. Both extractors evaluate
  \<^verbatim>\<open>document["elements"].GetArray()\<close> on it, and rapidjson's assertion fails: neither returns
  an empty result.
\<close>

theorem missing_elements_member_fails_assertion:
  "response_no_elements = ''{}''
   \<and> Parse (test_env (55, 55) response_no_elements resolve_none) response_no_elements = Some (JObject [])
   \<and> ExtractRelationIds (test_env (55, 55) response_no_elements resolve_none) response_no_elements
       = Inl AssertionFailed
   \<and> ExtractNodes (test_env (55, 55) response_no_elements resolve_none) response_no_elements
       = Inl AssertionFailed"
  by (simp add: ExtractRelationIds_def ExtractNodes_def parsed_def sample_defs)

section \<open>The incremental region search\<close>

subsection \<open>The paths of \<^verbatim>\<open>findRegions\<close>\<close>

lemma findRegions_invalid_box:
  "\<not> isValidBoundingBox env bbox
   \<Longrightarrow> findRegions env bbox prefs processed = (Inr [], processed, [])"
  by (simp add: findRegions_def)

lemma findRegions_empty_request:
  "formatRegionsRequest env prefs bbox = []
   \<Longrightarrow> findRegions env bbox prefs processed = (Inr [], processed, [])"
  by (simp add: findRegions_def Let_def)

lemma findRegions_nonempty_ids:
  assumes "isValidBoundingBox env bbox"
    and "formatRegionsRequest env prefs bbox \<noteq> []"
    and "ExtractRelationIds env (Post env (formatRegionsRequest env prefs bbox)) = Inr (i # ids)"
  shows "findRegions env bbox prefs processed
           = (Inr [], processed, [PostCall (formatRegionsRequest env prefs bbox)])"
  using assms by (simp add: findRegions_def Let_def)

lemma findRegions_processed: "fst (snd (findRegions env bbox prefs processed)) = processed"
  by (simp add: findRegions_def Let_def split: sum.splits)

lemma step_processed: "fst (snd (step env processed bbox prefs)) = processed"
  using findRegions_processed [of env bbox prefs processed]
  by (cases "findRegions env bbox prefs processed") (simp add: step_def)

lemma steps_processed: "snd (steps env processed invocations) = processed"
proof (induction invocations arbitrary: processed)
  case Nil
  show ?case by simp
next
  case (Cons inv rest)
  obtain bbox prefs where inv: "inv = (bbox, prefs)" by (cases inv)
  obtain out p' calls where st: "step env processed bbox prefs = (out, p', calls)"
    by (cases "step env processed bbox prefs")
  have "p' = processed" using step_processed [of env processed bbox prefs] st by simp
  then show ?case using Cons.IH [of processed] inv st
    by (cases "steps env processed rest") simp
qed

lemma step_42:
  "step (test_env (55, 55) response_relation_42 lookup) processed bbox only_airports
     = (Inr [], processed,
        [PostCall (formatRegionsRequest (test_env (55, 55) response_relation_42 lookup)
                     only_airports bbox)])"
  by (simp add: step_def findRegions_nonempty_ids [where i = 42 and ids = "[]"] valid_55
      request_nonempty_airports post_test_env extract_42)

subsection \<open>The processed set\<close>

text \<open>
  Claim C10. Every invocation of the step leaves the session's set of processed ids as
  it found it: \<^verbatim>\<open>findRegions\<close> returns early when the extracted ids are not empty and
  when the difference is not empty, so the insertion is reached with an empty range
  only. Over any sequence of invocations the set at the end is the set at the start.
\<close>

theorem processed_set_never_grows:
  "fst (snd (step env processed bbox prefs)) = processed
   \<and> snd (steps env processed invocations) = processed"
  by (simp add: step_processed steps_processed)

text \<open>
  Claim C1, evaluated where it fails. Two invocations of one handler, for two boxes
  whose query results both hold the relation id 42, with a geocoder that resolves 42:
  both invocations return no place, and the set is still empty afterwards. The place of
  the shared id is in neither output.
\<close>

theorem shared_region_reported_by_neither_step:
  "ExtractRelationIds (test_env (55, 55) response_relation_42 resolve_42)
       (Post (test_env (55, 55) response_relation_42 resolve_42)
          (formatRegionsRequest (test_env (55, 55) response_relation_42 resolve_42)
             only_airports scenario_box))
     = Inr [42]
   \<and> ExtractRelationIds (test_env (55, 55) response_relation_42 resolve_42)
       (Post (test_env (55, 55) response_relation_42 resolve_42)
          (formatRegionsRequest (test_env (55, 55) response_relation_42 resolve_42)
             only_airports other_box))
     = Inr [42]
   \<and> LookupRelationInformation (test_env (55, 55) response_relation_42 resolve_42) [42]
     = [region_42]
   \<and> steps (test_env (55, 55) response_relation_42 resolve_42) StartFindRegions
         [(scenario_box, only_airports), (other_box, only_airports)]
       = ([Inr [], Inr []], StartFindRegions)"
  by (simp add: step_42 post_test_env extract_42) (simp add: test_env_def resolve_42_def)

subsection \<open>The size check of the bounding box\<close>

text \<open>
  Claim C3, as amended. A box whose width or height is at least 2001 km is rejected:
  the step returns no place, leaves the set alone and calls no collaborator. (The check
  accepts a dimension strictly below \<open>1000 * 2 + 1\<close> km.)
\<close>

theorem step_rejects_box_of_2001_km:
  assumes "GetBoundingBoxDimensionsKm env bbox = (widthKm, heightKm)"
    and "2001 \<le> widthKm \<or> 2001 \<le> heightKm"
  shows "step env processed bbox prefs = (Inr [], processed, [])"
proof -
  have "\<not> isValidBoundingBox env bbox"
    using assms by (auto simp: isValidBoundingBox_def sc_maxDimensionKm_def)
  then show ?thesis
    by (simp add: step_def findRegions_invalid_box)
qed

theorem step_rejects_box_of_2001_km_witness:
  "GetBoundingBoxDimensionsKm (test_env (2500, 55) response_relation_42 resolve_42) scenario_box
     = (2500, 55)
   \<and> (2001 :: real) \<le> 2500
   \<and> step (test_env (2500, 55) response_relation_42 resolve_42) StartFindRegions
         scenario_box only_airports
     = (Inr [], StartFindRegions, [])"
proof -
  have d: "GetBoundingBoxDimensionsKm (test_env (2500, 55) response_relation_42 resolve_42)
             scenario_box = (2500, 55)"
    by (simp add: test_env_def)
  have h: "(2001 :: real) \<le> 2500 \<or> (2001 :: real) \<le> 55" by simp
  show ?thesis
    using step_rejects_box_of_2001_km [OF d h, of StartFindRegions only_airports] d by simp
qed

text \<open>
  Claim C3 as stated fails for a box 2000.5 km wide: it exceeds 2000 km, the check
  accepts it, and the step posts the composed query.
\<close>

theorem step_posts_for_box_of_2000_5_km:
  "GetBoundingBoxDimensionsKm (test_env (4001 / 2, 55) response_relation_42 resolve_42)
       scenario_box
     = (4001 / 2, 55)
   \<and> (2000 :: real) < 4001 / 2
   \<and> snd (snd (step (test_env (4001 / 2, 55) response_relation_42 resolve_42) StartFindRegions
              scenario_box only_airports))
     = [PostCall (formatRegionsRequest (test_env (4001 / 2, 55) response_relation_42 resolve_42)
                    only_airports scenario_box)]"
proof -
  have "isValidBoundingBox (test_env (4001 / 2, 55) response_relation_42 resolve_42) scenario_box"
    by (simp add: isValidBoundingBox_def sc_maxDimensionKm_def test_env_def)
  then show ?thesis
    by (simp add: step_def findRegions_nonempty_ids [where i = 42 and ids = "[]"]
        request_nonempty_airports post_test_env extract_42)
      (simp add: test_env_def)
qed

subsection \<open>Ids that the geocoder does not resolve\<close>

lemma extract_mixed:
  "ExtractRelationIds (test_env dims response lookup) response_mixed = Inr [42, 43]"
  by (simp add: ExtractRelationIds_def parsed_def sample_defs)

lemma step_mixed:
  "step (test_env (55, 55) response_mixed lookup) processed bbox only_airports
     = (Inr [], processed,
        [PostCall (formatRegionsRequest (test_env (55, 55) response_mixed lookup)
                     only_airports bbox)])"
  by (simp add: step_def findRegions_nonempty_ids [where i = 42 and ids = "[43]"] valid_55
      request_nonempty_airports post_test_env extract_mixed)

text \<open>
  Claim C6, evaluated where it fails. The query result holds the relation ids 42 and 43,
  neither of which is in the empty set of the new session, so both are unseen; the
  geocoder resolves 42 and not 43. The step returns after the extraction, before the
  difference, the lookup and the insertion: it posts the query and nothing else, returns
  no place, and neither 42 nor 43 is in the set afterwards. A second invocation finds
  the same two ids unseen again.
\<close>

theorem unseen_ids_are_not_marked_processed:
  "ExtractRelationIds (test_env (55, 55) response_mixed resolve_42)
       (Post (test_env (55, 55) response_mixed resolve_42)
          (formatRegionsRequest (test_env (55, 55) response_mixed resolve_42)
             only_airports scenario_box))
     = Inr [42, 43]
   \<and> set_difference (sort [42, 43]) (sorted_list_of_set StartFindRegions) = [42, 43]
   \<and> LookupRelationInformation (test_env (55, 55) response_mixed resolve_42) [42, 43]
     = [region_42]
   \<and> step (test_env (55, 55) response_mixed resolve_42) StartFindRegions
         scenario_box only_airports
     = (Inr [], StartFindRegions,
        [PostCall (formatRegionsRequest (test_env (55, 55) response_mixed resolve_42)
                     only_airports scenario_box)])
   \<and> 42 \<notin> fst (snd (step (test_env (55, 55) response_mixed resolve_42) StartFindRegions
                        scenario_box only_airports))
   \<and> 43 \<notin> fst (snd (step (test_env (55, 55) response_mixed resolve_42) StartFindRegions
                        scenario_box only_airports))
   \<and> steps (test_env (55, 55) response_mixed resolve_42) StartFindRegions
         [(scenario_box, only_airports), (other_box, only_airports)]
       = ([Inr [], Inr []], StartFindRegions)"
  by (simp add: step_mixed post_test_env extract_mixed)
    (simp add: test_env_def resolve_42_def StartFindRegions_def)

section \<open>The region query composer\<close>

lemma formatRegionsRequest_nothing_produced:
  assumes "\<not> enabled prefs (flagAirports env)"
    and "\<not> enabled prefs (flagSeaBeaches env)"
    and "\<not> enabled prefs (flagSaltLakes env)"
    and "\<not> enabled prefs (flagPeaks env) \<or> properties prefs ''minPeakHeight'' = None"
  shows "formatRegionsRequest env prefs bbox = []"
  using assms by (auto simp: formatRegionsRequest_def Let_def)

text \<open>
  Claim C4. When no feature category is enabled, or when no category other than peaks
  is enabled and the property \<^verbatim>\<open>minPeakHeight\<close> is absent (peaks is the one category with a
  required parameter), the composer returns the empty query, and the step returns no
  place without calling a collaborator.
\<close>

theorem no_query_without_produced_category:
  assumes "(\<not> enabled prefs (flagAirports env) \<and> \<not> enabled prefs (flagPeaks env)
            \<and> \<not> enabled prefs (flagSeaBeaches env) \<and> \<not> enabled prefs (flagSaltLakes env))
         \<or> (\<not> enabled prefs (flagAirports env) \<and> \<not> enabled prefs (flagSeaBeaches env)
            \<and> \<not> enabled prefs (flagSaltLakes env)
            \<and> properties prefs ''minPeakHeight'' = None)"
  shows "formatRegionsRequest env prefs bbox = []
         \<and> step env processed bbox prefs = (Inr [], processed, [])"
proof -
  have req: "formatRegionsRequest env prefs bbox = []"
    using assms by (auto intro: formatRegionsRequest_nothing_produced)
  then show ?thesis
    by (simp add: step_def findRegions_empty_request)
qed

theorem no_query_without_produced_category_witness:
  "\<not> enabled peaks_without_height (flagAirports (test_env (55, 55) response_relation_42 resolve_42))
   \<and> \<not> enabled peaks_without_height (flagSeaBeaches (test_env (55, 55) response_relation_42 resolve_42))
   \<and> \<not> enabled peaks_without_height (flagSaltLakes (test_env (55, 55) response_relation_42 resolve_42))
   \<and> enabled peaks_without_height (flagPeaks (test_env (55, 55) response_relation_42 resolve_42))
   \<and> properties peaks_without_height ''minPeakHeight'' = None
   \<and> formatRegionsRequest (test_env (55, 55) response_relation_42 resolve_42)
         peaks_without_height scenario_box = []
   \<and> step (test_env (55, 55) response_relation_42 resolve_42) StartFindRegions
         scenario_box peaks_without_height
     = (Inr [], StartFindRegions, [])"
proof -
  have h: "\<not> enabled peaks_without_height (flagAirports (test_env (55, 55) response_relation_42 resolve_42))
   \<and> \<not> enabled peaks_without_height (flagSeaBeaches (test_env (55, 55) response_relation_42 resolve_42))
   \<and> \<not> enabled peaks_without_height (flagSaltLakes (test_env (55, 55) response_relation_42 resolve_42))
   \<and> enabled peaks_without_height (flagPeaks (test_env (55, 55) response_relation_42 resolve_42))
   \<and> properties peaks_without_height ''minPeakHeight'' = None"
    by (simp add: enabled_def test_env_def peaks_without_height_def)
  then show ?thesis
    using no_query_without_produced_category
      [of peaks_without_height "test_env (55, 55) response_relation_42 resolve_42"
          scenario_box StartFindRegions]
    by simp
qed

text \<open>
  Claim C5, evaluated where it fails. With salt lakes as the only category, the
  sub-query stores its relations under the label of the sea beaches, \<^verbatim>\<open>.relS\<close>, and the
  final segment intersects \<^verbatim>\<open>.relL\<close>, a label that no sub-query produced. With airports and
  peaks enabled and no \<^verbatim>\<open>minPeakHeight\<close>, no peaks sub-query is produced and the final
  segment still intersects \<^verbatim>\<open>.relP\<close>.
\<close>

theorem salt_lakes_label_mismatch:
  \<open>formatRegionsRequest (test_env (55, 55) response_relation_42 resolve_42)
       only_salt_lakes scenario_box
     = ''[out:json][timeout:180];wr[natural=water][water=lake][salt=no][name](10, 10.5, 10, 10.5) -> .outL;.outL > -> .outL;node.outL(10, 10.5, 10, 10.5) -> .nodesL;.nodesL is_in -> .areasL;rel(pivot.areasL)[boundary=administrative][admin_level=4] -> .relS;rel.relL;out tags;''
   \<and> \<not> sublist ''-> .relP;''
         (formatRegionsRequest (test_env (55, 55) response_relation_42 resolve_42)
            airports_and_peaks_without_height scenario_box)
   \<and> suffix ''-> .relA;rel.relA.relP;out tags;''
         (formatRegionsRequest (test_env (55, 55) response_relation_42 resolve_42)
            airports_and_peaks_without_height scenario_box)\<close>
  by (simp add: composer_defs sample_defs only_salt_lakes_def
      airports_and_peaks_without_height_def scenario_box_def sublist_Cons_right suffix_Cons)

lemma atoi_3000: "atoi ''3000'' = 3000"
  by (simp add: atoi_def isspace_def isdigit_def)

lemma format_int_3000: "format_int 3000 = ''3000''"
  by (simp add: format_int_def digits.simps)

text \<open>
  Claim C9, as amended. With only peaks enabled and \<^verbatim>\<open>minPeakHeight\<close> = "3000", the composed
  query is the text below: it holds the elevation filter with the threshold 3000, and
  the bounding box as the elements 0, 2, 1, 3 of the array, separated by a comma and a
  space. For the array 10, 10, 10.5, 10.5 that is "10, 10.5, 10, 10.5", and for the array
  10, 10.5, 10, 10.5 it is "10, 10, 10.5, 10.5".
\<close>

theorem peaks_query_text:
  assumes "enabled prefs (flagPeaks env)"
    and "\<not> enabled prefs (flagAirports env)"
    and "\<not> enabled prefs (flagSeaBeaches env)"
    and "\<not> enabled prefs (flagSaltLakes env)"
    and "properties prefs ''minPeakHeight'' = Some ''3000''"
  shows \<open>formatRegionsRequest env prefs bbox
     = ''[out:json][timeout:180];node[natural=peak][name](''
       @ formatDouble env (bb0 bbox) @ '', '' @ formatDouble env (bb2 bbox) @ '', ''
       @ formatDouble env (bb1 bbox) @ '', '' @ formatDouble env (bb3 bbox)
       @ '')(if: is_number(t["ele"]) && number(t["ele"]) > 3000) -> .nodesP;.nodesP is_in -> .areasP;rel(pivot.areasP)[boundary=administrative][admin_level=4] -> .relP;rel.relP;out tags;''\<close>
  using assms
  by (simp add: formatRegionsRequest_def boundingBoxStr_def
      sz_requestHeader_def sz_requestFooter_def requestRelationsByNodes_def nodePeaksDef_def
      sz_regionsTags_def sz_relPeaks_def atoi_3000 format_int_3000)

theorem peaks_query_text_witness:
  \<open>enabled peaks_3000 (flagPeaks (test_env (55, 55) response_relation_42 resolve_42))
   \<and> properties peaks_3000 ''minPeakHeight'' = Some ''3000''
   \<and> formatRegionsRequest (test_env (55, 55) response_relation_42 resolve_42) peaks_3000
         \<lparr>bb0 = 10, bb1 = 10, bb2 = 21 / 2, bb3 = 21 / 2\<rparr>
     = ''[out:json][timeout:180];node[natural=peak][name](10, 10.5, 10, 10.5)(if: is_number(t["ele"]) && number(t["ele"]) > 3000) -> .nodesP;.nodesP is_in -> .areasP;rel(pivot.areasP)[boundary=administrative][admin_level=4] -> .relP;rel.relP;out tags;''
   \<and> formatRegionsRequest (test_env (55, 55) response_relation_42 resolve_42) peaks_3000
         \<lparr>bb0 = 10, bb1 = 21 / 2, bb2 = 10, bb3 = 21 / 2\<rparr>
     = ''[out:json][timeout:180];node[natural=peak][name](10, 10, 10.5, 10.5)(if: is_number(t["ele"]) && number(t["ele"]) > 3000) -> .nodesP;.nodesP is_in -> .areasP;rel(pivot.areasP)[boundary=administrative][admin_level=4] -> .relP;rel.relP;out tags;''\<close>
proof -
  have h: "enabled peaks_3000 (flagPeaks (test_env (55, 55) response_relation_42 resolve_42))"
    "\<not> enabled peaks_3000 (flagAirports (test_env (55, 55) response_relation_42 resolve_42))"
    "\<not> enabled peaks_3000 (flagSeaBeaches (test_env (55, 55) response_relation_42 resolve_42))"
    "\<not> enabled peaks_3000 (flagSaltLakes (test_env (55, 55) response_relation_42 resolve_42))"
    "properties peaks_3000 ''minPeakHeight'' = Some ''3000''"
    by (simp_all add: enabled_def test_env_def peaks_3000_def)
  show ?thesis
    using peaks_query_text [OF h, of "\<lparr>bb0 = 10, bb1 = 10, bb2 = 21 / 2, bb3 = 21 / 2\<rparr>"]
      peaks_query_text [OF h, of "\<lparr>bb0 = 10, bb1 = 21 / 2, bb2 = 10, bb3 = 21 / 2\<rparr>"] h(1) h(5)
    by (simp add: test_env_def format_10_and_10_5_def)
qed

text \<open>
  Claim C9 as stated fails: the composed query does not hold the text "10,10,10.5,10.5",
  for either of the two arrays, since the composer writes a space after every comma of
  the bounding box.
\<close>

theorem scenario_text_without_spaces_absent:
  "\<not> sublist ''10,10,10.5,10.5''
       (formatRegionsRequest (test_env (55, 55) response_relation_42 resolve_42) peaks_3000
          \<lparr>bb0 = 10, bb1 = 10, bb2 = 21 / 2, bb3 = 21 / 2\<rparr>)
   \<and> \<not> sublist ''10,10,10.5,10.5''
       (formatRegionsRequest (test_env (55, 55) response_relation_42 resolve_42) peaks_3000
          \<lparr>bb0 = 10, bb1 = 21 / 2, bb2 = 10, bb3 = 21 / 2\<rparr>)"
  by (simp add: composer_defs sample_defs peaks_3000_def atoi_3000 format_int_3000
      sublist_Cons_right)

section \<open>The historical date windows\<close>

subsection \<open>Day numbers and dates\<close>

text \<open>
  Within a century of 36524 days that starts \<open>k\<close> days into a block of 1460 days, the
  year \<open>y\<close> that \<^verbatim>\<open>civil_from_days\<close> computes for the day \<open>r\<close> is one of the hundred years of
  the century, and \<open>r\<close> is one of its days.
\<close>

lemma century:
  fixes r k :: int
  assumes r: "0 \<le> r" "r \<le> 36523" and k: "0 \<le> k" "k \<le> 72"
  defines "a \<equiv> (k + r) div 1460"
  defines "y \<equiv> (r - a) div 365"
  shows "0 \<le> y \<and> y \<le> 99 \<and> 0 \<le> r - 365 * y - y div 4 \<and> r - 365 * y - y div 4 \<le> 365"
proof -
  define q where "q = y div 4"
  have a1: "1460 * a \<le> k + r" "k + r < 1460 * a + 1460"
    unfolding a_def by arith+
  have y1: "365 * y \<le> r - a" "r - a < 365 * y + 365"
    unfolding y_def by arith+
  have q1: "4 * q \<le> y" "y < 4 * q + 4"
    unfolding q_def by arith+
  have a0: "0 \<le> a" using a1 r k by arith
  have a25: "a \<le> 25" using a1 r k by arith
  have y0: "0 \<le> y" using y1 a1 r k a0 by arith
  have y99: "y \<le> 99" using y1 a1 r k a0 by arith
  have qa: "q \<le> a" using q1 y1 a1 r k a0 by arith
  have aq: "a \<le> q + 1" using q1 y1 a1 r k a0 a25 by arith
  show ?thesis
    using y0 y99 qa aq y1 unfolding q_def by arith
qed

text \<open>The same for a day of the 400-year era.\<close>

lemma era_century:
  fixes b r doe yoe doy :: int
  assumes b: "0 \<le> b" "b \<le> 3" and r: "0 \<le> r" "r \<le> 36523"
    and doe: "doe = 36524 * b + r"
    and yoe: "yoe = (doe - doe div 1460 + doe div 36524 - doe div 146096) div 365"
    and doy: "doy = doe - (365 * yoe + yoe div 4 - yoe div 100)"
  shows "0 \<le> yoe \<and> yoe \<le> 399 \<and> 0 \<le> doy \<and> doy \<le> 365"
proof -
  define a where "a = (24 * b + r) div 1460"
  define y where "y = (r - a) div 365"
  have c: "0 \<le> y \<and> y \<le> 99 \<and> 0 \<le> r - 365 * y - y div 4 \<and> r - 365 * y - y div 4 \<le> 365"
    unfolding y_def a_def using century [of r "24 * b"] r b by simp
  have d1: "doe div 36524 = b" unfolding doe using r b by arith
  have d2: "doe div 146096 = 0" unfolding doe using r b by arith
  have d3: "doe div 1460 = 25 * b + a" unfolding doe a_def by arith
  have n: "doe - doe div 1460 + doe div 36524 - doe div 146096 = 365 * (100 * b) + (r - a)"
    using d1 d2 d3 doe by linarith
  have ye: "yoe = 100 * b + y"
    unfolding yoe n y_def by arith
  have y4: "yoe div 4 = 25 * b + y div 4" unfolding ye by arith
  have y100: "yoe div 100 = b" unfolding ye using c by arith
  have dy: "doy = r - 365 * y - y div 4"
    using doy y4 y100 ye doe by linarith
  show ?thesis unfolding dy using c b ye by arith
qed

lemma era_day:
  fixes doe yoe doy :: int
  assumes "0 \<le> doe" "doe \<le> 146096"
    and yoe: "yoe = (doe - doe div 1460 + doe div 36524 - doe div 146096) div 365"
    and doy: "doy = doe - (365 * yoe + yoe div 4 - yoe div 100)"
  shows "0 \<le> yoe \<and> yoe \<le> 399 \<and> 0 \<le> doy \<and> doy \<le> 365"
proof (cases "doe = 146096")
  case True
  then show ?thesis unfolding doy yoe by simp
next
  case False
  define b where "b = doe div 36524"
  define r where "r = doe mod 36524"
  have b: "0 \<le> b" "b \<le> 3" unfolding b_def using assms(1,2) False by arith+
  have r: "0 \<le> r" "r \<le> 36523" unfolding r_def by arith+
  have doe: "doe = 36524 * b + r" unfolding b_def r_def by simp
  show ?thesis
    using era_century [OF b r doe yoe doy] .
qed

text \<open>
  \<^verbatim>\<open>days_from_civil\<close> undoes \<^verbatim>\<open>civil_from_days\<close>: a day number converted to a date and back is
  the same day number.
\<close>

lemma days_from_civil_of_parts:
  fixes era yoe mp d :: int
  assumes yoe: "0 \<le> yoe" "yoe \<le> 399" and mp: "0 \<le> mp" "mp \<le> 11" and d: "1 \<le> d"
  shows "days_from_civil
            (if (if mp < 10 then mp + 3 else mp - 9) \<le> 2 then yoe + era * 400 + 1 else yoe + era * 400)
            (nat (if mp < 10 then mp + 3 else mp - 9)) (nat d)
         = era * 146097 + (yoe * 365 + yoe div 4 - yoe div 100 + ((153 * mp + 2) div 5 + d - 1)) - 719468"
proof -
  have e: "(yoe + era * 400) div 400 = era" using yoe by arith
  have dd: "int (nat d) = d" using d by simp
  show ?thesis
  proof (cases "mp < 10")
    case True
    then have m: "\<not> nat (mp + 3) \<le> 2" "2 < nat (mp + 3)" "int (nat (mp + 3)) - 3 = mp" "\<not> mp + 3 \<le> 2"
      using mp by simp_all
    show ?thesis
      unfolding days_from_civil_def Let_def
      by (simp only: True m if_True if_False dd e add_diff_cancel_right')
  next
    case False
    then have m: "nat (mp - 9) \<le> 2" "\<not> 2 < nat (mp - 9)" "int (nat (mp - 9)) + 9 = mp" "mp - 9 \<le> 2"
      using mp by simp_all
    show ?thesis
      unfolding days_from_civil_def Let_def
      by (simp only: False m if_True if_False dd e add_diff_cancel_right')
  qed
qed

lemma civil_from_days_parts:
  fixes z era doe yoe doy mp d :: int
  assumes "era = (z + 719468) div 146097"
    and "doe = (z + 719468) - era * 146097"
    and "yoe = (doe - doe div 1460 + doe div 36524 - doe div 146096) div 365"
    and "doy = doe - (365 * yoe + yoe div 4 - yoe div 100)"
    and "mp = (5 * doy + 2) div 153"
    and "d = doy - (153 * mp + 2) div 5 + 1"
  shows "civil_from_days z =
      \<lparr>year = (if (if mp < 10 then mp + 3 else mp - 9) \<le> 2 then yoe + era * 400 + 1 else yoe + era * 400),
       month = nat (if mp < 10 then mp + 3 else mp - 9), day = nat d\<rparr>"
  unfolding civil_from_days_def Let_def assms by (rule refl)

lemma to_sys_days_civil_from_days: "to_sys_days (civil_from_days z) = z"
proof -
  define era where "era = (z + 719468) div 146097"
  define doe where "doe = (z + 719468) - era * 146097"
  define yoe where "yoe = (doe - doe div 1460 + doe div 36524 - doe div 146096) div 365"
  define doy where "doy = doe - (365 * yoe + yoe div 4 - yoe div 100)"
  define mp where "mp = (5 * doy + 2) div 153"
  define d where "d = doy - (153 * mp + 2) div 5 + 1"
  have doe: "0 \<le> doe" "doe \<le> 146096" unfolding doe_def era_def by arith+
  have b: "0 \<le> yoe \<and> yoe \<le> 399 \<and> 0 \<le> doy \<and> doy \<le> 365"
    using era_day [OF doe yoe_def doy_def] .
  have mp: "0 \<le> mp" "mp \<le> 11" unfolding mp_def using b by arith+
  have d: "1 \<le> d" unfolding d_def mp_def using b by arith
  have y: "0 \<le> yoe" "yoe \<le> 399" using b by simp_all
  have "to_sys_days (civil_from_days z)
      = era * 146097 + (yoe * 365 + yoe div 4 - yoe div 100 + ((153 * mp + 2) div 5 + d - 1)) - 719468"
    unfolding civil_from_days_parts [OF era_def doe_def yoe_def doy_def mp_def d_def] to_sys_days_def
    by (simp only: Date.simps days_from_civil_of_parts [OF y mp d])
  also have "\<dots> = z"
    using d_def doy_def doe_def by linarith
  finally show ?thesis .
qed

subsection \<open>The two loops\<close>

lemma date_le_iff_not_less: "date_le a b \<longleftrightarrow> \<not> date_less b a"
  by (auto simp: date_le_def date_less_def)

lemma date_less_minus_year: "date_less e l \<Longrightarrow> date_less (minus_year e) l"
  by (auto simp: date_less_def minus_year_def)

lemma date_less_funpow: "date_less e l \<Longrightarrow> date_less ((minus_year ^^ i) e) l"
  by (induction i) (simp_all add: date_less_minus_year)

lemma roll_back_funpow:
  "\<exists>k. roll_back l (s, e) = ((minus_year ^^ k) s, (minus_year ^^ k) e)
       \<and> date_less ((minus_year ^^ k) e) l
       \<and> (\<not> date_le l e \<longrightarrow> k = 0)"
proof (induction l "(s, e)" arbitrary: s e rule: roll_back.induct)
  case (1 l s e)
  show ?case
  proof (cases "date_le l e")
    case True
    from 1 [OF True] obtain k where
      k: "roll_back l (minus_year s, minus_year e)
            = ((minus_year ^^ k) (minus_year s), (minus_year ^^ k) (minus_year e))"
         "date_less ((minus_year ^^ k) (minus_year e)) l"
      by blast
    have "roll_back l (s, e) = ((minus_year ^^ Suc k) s, (minus_year ^^ Suc k) e)"
      using True k(1) by (subst roll_back.simps) (simp add: funpow_swap1)
    moreover have "date_less ((minus_year ^^ Suc k) e) l"
      using k(2) by (simp add: funpow_swap1)
    ultimately show ?thesis using True by blast
  next
    case False
    then have "roll_back l (s, e) = ((minus_year ^^ 0) s, (minus_year ^^ 0) e)"
      by (subst roll_back.simps) simp
    moreover have "date_less ((minus_year ^^ 0) e) l"
      using False by (simp add: date_le_iff_not_less)
    ultimately show ?thesis by blast
  qed
qed

lemma length_collect: "length (collect n w) = n"
proof (induction n arbitrary: w)
  case 0
  show ?case by simp
next
  case (Suc n)
  then show ?case by (cases w) simp
qed

lemma nth_collect:
  "i < n \<Longrightarrow> collect n (s, e) ! i = ((minus_year ^^ i) s, (minus_year ^^ i) e)"
proof (induction n arbitrary: s e i)
  case 0
  then show ?case by simp
next
  case (Suc n)
  show ?case
  proof (cases i)
    case 0
    then show ?thesis by simp
  next
    case (Suc j)
    then have "j < n" using Suc.prems by simp
    then show ?thesis using Suc.IH [of j "minus_year s" "minus_year e"] Suc
      by (simp add: funpow_swap1)
  qed
qed

lemma unat_max_1: "unat (max 1 (n :: 32 word)) = max 1 (unat n)"
  by (simp add: max_def word_le_nat_alt)

lemma candidate_span:
  "to_sys_days (snd (candidate dateRange latestDate)) - to_sys_days (fst (candidate dateRange latestDate))
     = to_sys_days (snd dateRange) - to_sys_days (fst dateRange)"
  by (cases dateRange) (simp add: candidate_def Let_def to_sys_days_civil_from_days)

subsection \<open>The windows\<close>

text \<open>
  Claim C2, as amended. On inputs that \<^verbatim>\<open>std::chrono\<close> represents,
  \<^verbatim>\<open>CollectHistoricalRanges\<close> returns exactly \<open>max 1 numYears\<close> windows; the end of every
  window is strictly before the reference date; each window after the first is the
  previous one with both ends moved back one calendar year. The window anchored in the
  year of the reference date (\<open>candidate\<close>) spans exactly the days from the start to the
  end of the given range, and every window returned is that window with both ends moved
  back by the same number of calendar years, month and day kept; it is the candidate
  itself when the candidate ends before the reference date. The number of days of a
  window that was moved is not stated: it changes when the move crosses a February 29.
\<close>

theorem historical_ranges_are_yearly_copies_of_candidate:
  assumes "chrono_representable dateRange latestDate numYears"
  shows "length (CollectHistoricalRanges dateRange latestDate numYears) = max 1 (unat numYears)
   \<and> (\<forall>i < max 1 (unat numYears).
          date_less (snd (CollectHistoricalRanges dateRange latestDate numYears ! i)) latestDate)
   \<and> (\<forall>i. Suc i < max 1 (unat numYears) \<longrightarrow>
          CollectHistoricalRanges dateRange latestDate numYears ! Suc i
            = (minus_year (fst (CollectHistoricalRanges dateRange latestDate numYears ! i)),
               minus_year (snd (CollectHistoricalRanges dateRange latestDate numYears ! i))))
   \<and> to_sys_days (snd (candidate dateRange latestDate))
        - to_sys_days (fst (candidate dateRange latestDate))
      = to_sys_days (snd dateRange) - to_sys_days (fst dateRange)
   \<and> (\<exists>k. \<forall>i < max 1 (unat numYears).
          CollectHistoricalRanges dateRange latestDate numYears ! i
            = ((minus_year ^^ (k + i)) (fst (candidate dateRange latestDate)),
               (minus_year ^^ (k + i)) (snd (candidate dateRange latestDate))))
   \<and> (\<not> date_le latestDate (snd (candidate dateRange latestDate)) \<longrightarrow>
          CollectHistoricalRanges dateRange latestDate numYears ! 0 = candidate dateRange latestDate)"
proof -
  obtain s0 e0 where c: "candidate dateRange latestDate = (s0, e0)"
    by (cases "candidate dateRange latestDate")
  obtain k where k: "roll_back latestDate (s0, e0) = ((minus_year ^^ k) s0, (minus_year ^^ k) e0)"
      "date_less ((minus_year ^^ k) e0) latestDate"
      "\<not> date_le latestDate e0 \<longrightarrow> k = 0"
    using roll_back_funpow [of latestDate s0 e0] by blast
  let ?n = "max 1 (unat numYears)"
  let ?ws = "CollectHistoricalRanges dateRange latestDate numYears"
  have ws: "?ws = collect ?n ((minus_year ^^ k) s0, (minus_year ^^ k) e0)"
    by (simp add: CollectHistoricalRanges_def c k(1) unat_max_1)
  have nth: "?ws ! i = ((minus_year ^^ (k + i)) s0, (minus_year ^^ (k + i)) e0)" if "i < ?n" for i
    using that by (simp add: ws nth_collect funpow_add add.commute)
  have len: "length ?ws = ?n"
    by (simp add: ws length_collect)
  have before: "date_less (snd (?ws ! i)) latestDate" if "i < ?n" for i
    using date_less_funpow [OF k(2), of i] that by (simp add: nth funpow_add add.commute)
  have yearly: "?ws ! Suc i = (minus_year (fst (?ws ! i)), minus_year (snd (?ws ! i)))"
    if "Suc i < ?n" for i
    using that by (simp add: nth)
  have first: "?ws ! 0 = candidate dateRange latestDate" if "\<not> date_le latestDate e0"
    using that k(3) nth [of 0] c by simp
  have copies: "\<exists>k. \<forall>i < ?n. ?ws ! i = ((minus_year ^^ (k + i)) (fst (candidate dateRange latestDate)),
               (minus_year ^^ (k + i)) (snd (candidate dateRange latestDate)))"
    using nth c by auto
  show ?thesis
    using len before yearly candidate_span [of dateRange latestDate] copies first c
    by simp
qed

theorem historical_ranges_are_yearly_copies_of_candidate_witness:
  "chrono_representable (ymd 2023 1 1, ymd 2023 1 10) (ymd 2024 1 5) 2
   \<and> CollectHistoricalRanges (ymd 2023 1 1, ymd 2023 1 10) (ymd 2024 1 5) 2
       = [(ymd 2023 1 1, ymd 2023 1 10), (ymd 2022 1 1, ymd 2022 1 10)]
   \<and> length (CollectHistoricalRanges (ymd 2023 1 1, ymd 2023 1 10) (ymd 2024 1 5) 2) = 2
   \<and> date_less (snd (CollectHistoricalRanges (ymd 2023 1 1, ymd 2023 1 10) (ymd 2024 1 5) 2 ! 0))
        (ymd 2024 1 5)
   \<and> date_less (snd (CollectHistoricalRanges (ymd 2023 1 1, ymd 2023 1 10) (ymd 2024 1 5) 2 ! 1))
        (ymd 2024 1 5)
   \<and> CollectHistoricalRanges (ymd 2023 1 1, ymd 2023 1 10) (ymd 2024 1 5) 2 ! Suc 0
       = (minus_year (fst (CollectHistoricalRanges (ymd 2023 1 1, ymd 2023 1 10) (ymd 2024 1 5) 2 ! 0)),
          minus_year (snd (CollectHistoricalRanges (ymd 2023 1 1, ymd 2023 1 10) (ymd 2024 1 5) 2 ! 0)))
   \<and> candidate (ymd 2023 1 1, ymd 2023 1 10) (ymd 2024 1 5) = (ymd 2024 1 1, ymd 2024 1 10)
   \<and> to_sys_days (ymd 2024 1 10) - to_sys_days (ymd 2024 1 1)
       = to_sys_days (ymd 2023 1 10) - to_sys_days (ymd 2023 1 1)"
proof -
  have h: "chrono_representable (ymd 2023 1 1, ymd 2023 1 10) (ymd 2024 1 5) 2"
    by code_simp
  have w: "CollectHistoricalRanges (ymd 2023 1 1, ymd 2023 1 10) (ymd 2024 1 5) 2
       = [(ymd 2023 1 1, ymd 2023 1 10), (ymd 2022 1 1, ymd 2022 1 10)]"
    by code_simp
  have c: "candidate (ymd 2023 1 1, ymd 2023 1 10) (ymd 2024 1 5) = (ymd 2024 1 1, ymd 2024 1 10)"
    by code_simp
  have n: "max 1 (unat (2 :: 32 word)) = 2"
    by simp
  note t = historical_ranges_are_yearly_copies_of_candidate [OF h, unfolded n]
  have l: "length (CollectHistoricalRanges (ymd 2023 1 1, ymd 2023 1 10) (ymd 2024 1 5) 2) = 2"
    using t by blast
  have b: "\<forall>i<2. date_less (snd (CollectHistoricalRanges (ymd 2023 1 1, ymd 2023 1 10) (ymd 2024 1 5) 2 ! i))
        (ymd 2024 1 5)"
    using t by blast
  have y: "\<forall>i. Suc i < 2 \<longrightarrow> CollectHistoricalRanges (ymd 2023 1 1, ymd 2023 1 10) (ymd 2024 1 5) 2 ! Suc i
       = (minus_year (fst (CollectHistoricalRanges (ymd 2023 1 1, ymd 2023 1 10) (ymd 2024 1 5) 2 ! i)),
          minus_year (snd (CollectHistoricalRanges (ymd 2023 1 1, ymd 2023 1 10) (ymd 2024 1 5) 2 ! i)))"
    using t by blast
  have s: "to_sys_days (snd (candidate (ymd 2023 1 1, ymd 2023 1 10) (ymd 2024 1 5)))
        - to_sys_days (fst (candidate (ymd 2023 1 1, ymd 2023 1 10) (ymd 2024 1 5)))
      = to_sys_days (snd (ymd 2023 1 1, ymd 2023 1 10)) - to_sys_days (fst (ymd 2023 1 1, ymd 2023 1 10))"
    using t by blast
  have b0: "date_less (snd (CollectHistoricalRanges (ymd 2023 1 1, ymd 2023 1 10) (ymd 2024 1 5) 2 ! 0))
        (ymd 2024 1 5)"
    using b by simp
  have b1: "date_less (snd (CollectHistoricalRanges (ymd 2023 1 1, ymd 2023 1 10) (ymd 2024 1 5) 2 ! 1))
        (ymd 2024 1 5)"
    using b by simp
  have y0: "CollectHistoricalRanges (ymd 2023 1 1, ymd 2023 1 10) (ymd 2024 1 5) 2 ! Suc 0
       = (minus_year (fst (CollectHistoricalRanges (ymd 2023 1 1, ymd 2023 1 10) (ymd 2024 1 5) 2 ! 0)),
          minus_year (snd (CollectHistoricalRanges (ymd 2023 1 1, ymd 2023 1 10) (ymd 2024 1 5) 2 ! 0)))"
    using y by simp
  have s': "to_sys_days (ymd 2024 1 10) - to_sys_days (ymd 2024 1 1)
       = to_sys_days (ymd 2023 1 10) - to_sys_days (ymd 2023 1 1)"
    using s unfolding c by simp
  show ?thesis
    using h w l b0 b1 y0 c s' by blast
qed

text \<open>
  Claim C2 as stated fails on the length of the windows: for the range from 2024-02-20
  to 2024-03-05 (14 days), the reference date 2024-06-01 and two windows, the second
  window runs from 2023-02-20 to 2023-03-05, which is 13 days.
\<close>

theorem second_window_is_a_day_shorter:
  "chrono_representable (ymd 2024 2 20, ymd 2024 3 5) (ymd 2024 6 1) 2
   \<and> CollectHistoricalRanges (ymd 2024 2 20, ymd 2024 3 5) (ymd 2024 6 1) 2
       = [(ymd 2024 2 20, ymd 2024 3 5), (ymd 2023 2 20, ymd 2023 3 5)]
   \<and> to_sys_days (ymd 2024 3 5) - to_sys_days (ymd 2024 2 20) = 14
   \<and> to_sys_days (ymd 2023 3 5) - to_sys_days (ymd 2023 2 20) = 13"
  by code_simp

end
